theory Spec2Isabelle
  imports Complex_Main
begin

section \<open>Constants of \<^verbatim>\<open>sales_lead.py\<close>\<close>

text \<open>
  Lead statuses and pipeline stages are Python strings; the class attributes of
  \<^verbatim>\<open>LeadStatus\<close> and \<^verbatim>\<open>PipelineStage\<close> only name them. Both classes have an
  attribute \<^verbatim>\<open>NEGOTIATION\<close> with the same string value.
\<close>

abbreviation PROSPECT :: string where "PROSPECT \<equiv> ''Prospect''"
abbreviation QUALIFIED :: string where "QUALIFIED \<equiv> ''Qualified''"
abbreviation NEGOTIATION :: string where "NEGOTIATION \<equiv> ''Negotiation''"
abbreviation WON :: string where "WON \<equiv> ''Won''"
abbreviation LOST :: string where "LOST \<equiv> ''Lost''"

abbreviation DISCOVERY :: string where "DISCOVERY \<equiv> ''Discovery''"
abbreviation PROPOSAL_SENT :: string where "PROPOSAL_SENT \<equiv> ''Proposal Sent''"
abbreviation CONTRACT_SENT :: string where "CONTRACT_SENT \<equiv> ''Contract Sent''"
abbreviation CLOSED_WON :: string where "CLOSED_WON \<equiv> ''Closed Won''"
abbreviation CLOSED_LOST :: string where "CLOSED_LOST \<equiv> ''Closed Lost''"

definition LEAD_STATUSES :: "string list" where
  "LEAD_STATUSES = [PROSPECT, QUALIFIED, NEGOTIATION, WON, LOST]"

definition PIPELINE_STAGES :: "string list" where
  "PIPELINE_STAGES =
     [DISCOVERY, PROPOSAL_SENT, CONTRACT_SENT, NEGOTIATION, CLOSED_WON, CLOSED_LOST]"

text \<open>Dictionary literals are association lists in source order; their keys are distinct.\<close>

definition STATUS_PIPELINE_MAPPING :: "(string \<times> string list) list" where
  "STATUS_PIPELINE_MAPPING =
     [(PROSPECT, [DISCOVERY, PROPOSAL_SENT, CONTRACT_SENT, NEGOTIATION]),
      (QUALIFIED, [DISCOVERY, PROPOSAL_SENT, CONTRACT_SENT, NEGOTIATION]),
      (NEGOTIATION, [PROPOSAL_SENT, CONTRACT_SENT, NEGOTIATION]),
      (WON, [CLOSED_WON]),
      (LOST, [CLOSED_LOST])]"

definition STATUS_SCORES :: "(string \<times> int) list" where
  "STATUS_SCORES =
     [(WON, 25), (NEGOTIATION, 15), (QUALIFIED, 10), (PROSPECT, 5), (LOST, - 10)]"

definition PIPELINE_SCORES :: "(string \<times> int) list" where
  "PIPELINE_SCORES =
     [(CLOSED_WON, 25), (CONTRACT_SENT, 15), (PROPOSAL_SENT, 10), (DISCOVERY, 5),
      (CLOSED_LOST, - 10), (NEGOTIATION, 20)]"

text \<open>\<^verbatim>\<open>d.get(k, default)\<close> on a dictionary literal.\<close>

definition dict_get :: "('k \<times> 'v) list \<Rightarrow> 'k \<Rightarrow> 'v \<Rightarrow> 'v" where
  "dict_get d k dflt = (case map_of d k of None \<Rightarrow> dflt | Some v \<Rightarrow> v)"


section \<open>The lead score\<close>

text \<open>
  \<^verbatim>\<open>int(x)\<close> truncates towards zero.
\<close>

definition py_int :: "rat \<Rightarrow> int" where
  "py_int x = (if 0 \<le> x then \<lfloor>x\<rfloor> else \<lceil>x\<rceil>)"

text \<open>
  The local \<^verbatim>\<open>deal_score = min(last_deal_size / 166666, 30)\<close>. The deal size is an
  integer (a \<^verbatim>\<open>number_input\<close> with integer bounds, or \<^verbatim>\<open>random.randint\<close>); Python's
  true division gives a double, which the model replaces by the exact quotient.
\<close>

definition deal_score :: "int \<Rightarrow> rat" where
  "deal_score last_deal_size = min (of_int last_deal_size / 166666) 30"

text \<open>
  \<^verbatim>\<open>lead_score_weighted\<close>. The draw \<^verbatim>\<open>random.randint(20, 50)\<close> is the explicit
  first argument \<open>base\<close>; the other four arguments are the source's.
\<close>

definition lead_score_weighted :: "int \<Rightarrow> int \<Rightarrow> string \<Rightarrow> string \<Rightarrow> bool \<Rightarrow> int" where
  "lead_score_weighted base last_deal_size lead_status pipeline_stage crm_active =
     (let score = (of_int base :: rat);
          score = score + deal_score last_deal_size
      in if lead_status \<in> set [WON, LOST] then 0
         else
           let score = score + of_int (dict_get STATUS_SCORES lead_status 0);
               score = score + of_int (dict_get PIPELINE_SCORES pipeline_stage 0);
               score = (if crm_active then score + 10 else score)
           in min (max (py_int score) 0) 100)"


text \<open>
  The score as the specification words it, for comparison with the source: its status table
  has no entry for Won and Lost, and the running total is truncated and then clamped.
\<close>

definition spec_status_points :: "(string \<times> int) list" where
  "spec_status_points = [(NEGOTIATION, 15), (QUALIFIED, 10), (PROSPECT, 5)]"

definition spec_stage_points :: "(string \<times> int) list" where
  "spec_stage_points =
     [(CLOSED_WON, 25), (CONTRACT_SENT, 15), (NEGOTIATION, 20), (PROPOSAL_SENT, 10),
      (DISCOVERY, 5), (CLOSED_LOST, - 10)]"

definition spec_clamp :: "int \<Rightarrow> int" where
  "spec_clamp n = (if n < 0 then 0 else if 100 < n then 100 else n)"

definition spec_compute_score :: "int \<Rightarrow> int \<Rightarrow> string \<Rightarrow> string \<Rightarrow> bool \<Rightarrow> int" where
  "spec_compute_score b deal_size status stage crm_active =
     spec_clamp (py_int (of_int b + min (of_int deal_size / 166666) 30
       + of_int (dict_get spec_status_points status 0)
       + of_int (dict_get spec_stage_points stage 0)
       + (if crm_active then 10 else 0)))"


section \<open>The status and pipeline pair generator\<close>

datatype py_error = KeyError | IndexError | TypeError

text \<open>
  \<^verbatim>\<open>random.choice(seq)\<close> raises IndexError on an empty sequence and otherwise returns
  \<^verbatim>\<open>seq[i]\<close> for an index \<open>i\<close> drawn below \<^verbatim>\<open>len(seq)\<close>. The drawn index is the
  explicit argument \<open>draw\<close>; subscripting beyond the end raises IndexError.
\<close>

definition random_choice :: "nat \<Rightarrow> 'a list \<Rightarrow> py_error + 'a" where
  "random_choice draw seq =
     (if seq = [] then Inl IndexError
      else if draw < length seq then Inr (seq ! draw)
      else Inl IndexError)"

text \<open>The inner loop \<^verbatim>\<open>for stage in STATUS_PIPELINE_MAPPING[status]\<close>, appending to \<^verbatim>\<open>choices\<close>.\<close>

fun stage_loop :: "string \<Rightarrow> string list \<Rightarrow> (string \<times> string) list \<Rightarrow> (string \<times> string) list" where
  "stage_loop status [] choices = choices"
| "stage_loop status (stage # stages) choices =
     stage_loop status stages (choices @ [(status, stage)])"

text \<open>
  The outer loop \<^verbatim>\<open>for status in LEAD_STATUSES\<close>; subscripting the mapping with a status
  it does not hold raises KeyError.
\<close>

fun status_loop :: "string list \<Rightarrow> (string \<times> string) list \<Rightarrow> py_error + (string \<times> string) list" where
  "status_loop [] choices = Inr choices"
| "status_loop (status # statuses) choices =
     (case map_of STATUS_PIPELINE_MAPPING status of
        None \<Rightarrow> Inl KeyError
      | Some stages \<Rightarrow> status_loop statuses (stage_loop status stages choices))"

definition random_lead_status_and_pipeline_stage :: "nat \<Rightarrow> py_error + (string \<times> string)" where
  "random_lead_status_and_pipeline_stage draw =
     (case status_loop LEAD_STATUSES [] of
        Inl e \<Rightarrow> Inl e
      | Inr choices \<Rightarrow> random_choice draw choices)"

text \<open>
  The table of valid pairs as the specification lists it: Prospect and Qualified each permit
  Discovery, Proposal Sent, Contract Sent and Negotiation; the status Negotiation permits
  Proposal Sent, Contract Sent and the stage Negotiation; Won permits only Closed Won; Lost
  permits only Closed Lost.
\<close>

definition spec_valid_pairs :: "(string \<times> string) set" where
  "spec_valid_pairs =
     {(PROSPECT, DISCOVERY), (PROSPECT, PROPOSAL_SENT), (PROSPECT, CONTRACT_SENT),
      (PROSPECT, NEGOTIATION),
      (QUALIFIED, DISCOVERY), (QUALIFIED, PROPOSAL_SENT), (QUALIFIED, CONTRACT_SENT),
      (QUALIFIED, NEGOTIATION),
      (NEGOTIATION, PROPOSAL_SENT), (NEGOTIATION, CONTRACT_SENT), (NEGOTIATION, NEGOTIATION),
      (WON, CLOSED_WON),
      (LOST, CLOSED_LOST)}"


section \<open>Documents and Python values\<close>

text \<open>
  The values a lead document holds under its field names: JSON null, booleans, integers
  and strings.
\<close>

datatype pyval = PNone | PBool bool | PInt int | PStr string

text \<open>
  \<^verbatim>\<open>a == b\<close> and \<^verbatim>\<open>a != b\<close>: \<^verbatim>\<open>bool\<close> is a subclass of \<^verbatim>\<open>int\<close>, so \<^verbatim>\<open>True == 1\<close>
  and \<^verbatim>\<open>False == 0\<close>; values of unrelated types are unequal.
\<close>

fun py_eq :: "pyval \<Rightarrow> pyval \<Rightarrow> bool" where
  "py_eq PNone PNone = True"
| "py_eq (PBool a) (PBool b) = (a = b)"
| "py_eq (PBool a) (PInt n) = ((if a then 1 else 0) = n)"
| "py_eq (PInt m) (PBool b) = (m = (if b then 1 else 0))"
| "py_eq (PInt m) (PInt n) = (m = n)"
| "py_eq (PStr s) (PStr t) = (s = t)"
| "py_eq _ _ = False"

definition py_ne :: "pyval \<Rightarrow> pyval \<Rightarrow> bool" where
  "py_ne a b = (\<not> py_eq a b)"

text \<open>Truth value testing, as in \<^verbatim>\<open>if crm_active:\<close>.\<close>

fun truthy :: "pyval \<Rightarrow> bool" where
  "truthy PNone = False"
| "truthy (PBool b) = b"
| "truthy (PInt n) = (n \<noteq> 0)"
| "truthy (PStr s) = (s \<noteq> [])"

text \<open>The left operand of \<^verbatim>\<open>last_deal_size / 166666\<close>: a number, or TypeError.\<close>

fun as_number :: "pyval \<Rightarrow> py_error + int" where
  "as_number (PInt n) = Inr n"
| "as_number (PBool b) = Inr (if b then 1 else 0)"
| "as_number _ = Inl TypeError"

text \<open>\<^verbatim>\<open>v >= 80\<close>: a comparison of numbers, or TypeError.\<close>

fun ge_80 :: "pyval \<Rightarrow> py_error + bool" where
  "ge_80 (PInt n) = Inr (80 \<le> n)"
| "ge_80 (PBool b) = Inr (80 \<le> (if b then 1 else 0 :: int))"
| "ge_80 _ = Inl TypeError"

type_synonym pydict = "string \<rightharpoonup> pyval"

text \<open>\<^verbatim>\<open>d.get(k)\<close> and \<^verbatim>\<open>d.get(k, default)\<close>.\<close>

definition get :: "pydict \<Rightarrow> string \<Rightarrow> pyval" where
  "get d k = (case d k of None \<Rightarrow> PNone | Some v \<Rightarrow> v)"

definition get_or :: "pydict \<Rightarrow> string \<Rightarrow> pyval \<Rightarrow> pyval" where
  "get_or d k dflt = (case d k of None \<Rightarrow> dflt | Some v \<Rightarrow> v)"

text \<open>
  An entry of the history map \<^verbatim>\<open>old_data\<close>, and a stored document: the sub-dictionaries
  under the keys \<^verbatim>\<open>"sales_lead"\<close> and \<^verbatim>\<open>"old_data"\<close>, each absent (\<open>None\<close>) or present.
  Every other key of the document (the lead id, a generated summary) lives in the record
  extension and is never touched.
\<close>

record hist_entry =
  old_value :: pyval
  audit_date :: string

type_synonym history = "string \<rightharpoonup> hist_entry"

record doc =
  sales_lead :: "pydict option"
  old_data :: "history option"

text \<open>\<^verbatim>\<open>doc.get("old_data", {})\<close>.\<close>

definition history_of :: "'a doc_scheme \<Rightarrow> history" where
  "history_of d = (case old_data d of None \<Rightarrow> Map.empty | Some h \<Rightarrow> h)"

text \<open>\<^verbatim>\<open>doc.get("sales_lead", {})\<close>.\<close>

definition lead_of :: "'a doc_scheme \<Rightarrow> pydict" where
  "lead_of d = (case sales_lead d of None \<Rightarrow> Map.empty | Some m \<Rightarrow> m)"


section \<open>The scheduled refresh: \<^verbatim>\<open>update_document\<close>\<close>

definition notes_samples :: "string list" where
  "notes_samples =
     [''Contacted client, awaiting response.'',
      ''Sent proposal, pending approval.'',
      ''Negotiations ongoing, positive signs.'',
      ''Lost contact, follow-up needed.'',
      ''Client requested revised pricing.'']"

definition random_notes :: "nat \<Rightarrow> py_error + string" where
  "random_notes draw = random_choice draw notes_samples"

text \<open>
  \<^verbatim>\<open>update_document(doc)\<close>. The clock reading \<open>now\<close> and the three random draws (the index
  of the status and stage pair, the index of the note, the base of the score) are explicit
  arguments. The source mutates \<^verbatim>\<open>doc["sales_lead"]\<close> and \<^verbatim>\<open>old_data\<close> in place and
  sets \<^verbatim>\<open>changed\<close>; the model threads the three through the four commented blocks of
  the function body, one definition per block. A raised exception is the \<open>Inl\<close> result.
\<close>

type_synonym audit_state = "history \<times> pydict \<times> bool"

text \<open>The block \<^verbatim>\<open># lead_status and pipeline_stage\<close>: one test guards both entries.\<close>

definition refresh_status_and_pipeline :: "string \<Rightarrow> string \<Rightarrow> string \<Rightarrow> audit_state \<Rightarrow> audit_state" where
  "refresh_status_and_pipeline now new_status new_pipeline st =
     (case st of (h, sl, changed) \<Rightarrow>
        let current_pipeline = get sl ''pipeline_stage'';
            current_status = get sl ''lead_status''
        in if py_ne (PStr new_status) current_status
              \<or> py_ne (PStr new_pipeline) current_pipeline
           then (h(''lead_status'' \<mapsto> \<lparr>old_value = current_status, audit_date = now\<rparr>,
                   ''pipeline_stage'' \<mapsto> \<lparr>old_value = current_pipeline, audit_date = now\<rparr>),
                 sl(''lead_status'' \<mapsto> PStr new_status,
                    ''pipeline_stage'' \<mapsto> PStr new_pipeline),
                 True)
           else (h, sl, changed))"

text \<open>The block \<^verbatim>\<open># notes\<close>.\<close>

definition refresh_notes :: "string \<Rightarrow> string \<Rightarrow> audit_state \<Rightarrow> audit_state" where
  "refresh_notes now new_note st =
     (case st of (h, sl, changed) \<Rightarrow>
        let current_note = get sl ''notes''
        in if py_ne (PStr new_note) current_note
           then (h(''notes'' \<mapsto> \<lparr>old_value = current_note, audit_date = now\<rparr>),
                 sl(''notes'' \<mapsto> PStr new_note),
                 True)
           else (h, sl, changed))"

text \<open>
  The block \<^verbatim>\<open># lead_score\<close>: the score is computed from the stored deal size and CRM
  flag and from the new status and stage; a deal size that is not a number raises TypeError
  in the division.
\<close>

definition refresh_score ::
  "string \<Rightarrow> int \<Rightarrow> string \<Rightarrow> string \<Rightarrow> audit_state \<Rightarrow> py_error + audit_state" where
  "refresh_score now base new_status new_pipeline st =
     (case st of (h, sl, changed) \<Rightarrow>
        let current_score = get_or sl ''lead_score'' (PInt 0)
        in case as_number (get_or sl ''last_deal_size_usd'' (PInt 0)) of
             Inl e \<Rightarrow> Inl e
           | Inr last_deal_size \<Rightarrow>
               let new_score = lead_score_weighted base last_deal_size new_status new_pipeline
                                 (truthy (get_or sl ''crm_activity_flag'' (PBool False)))
               in if py_ne (PInt new_score) current_score
                  then Inr (h(''lead_score'' \<mapsto>
                               \<lparr>old_value = current_score, audit_date = now\<rparr>),
                            sl(''lead_score'' \<mapsto> PInt new_score),
                            True)
                  else Inr (h, sl, changed))"

text \<open>
  The line under \<^verbatim>\<open># high_priority_flag based on lead_score\<close>: it subscripts the lead
  with \<^verbatim>\<open>"lead_score"\<close> (KeyError when the key is missing) and compares with 80.
\<close>

definition refresh_flag :: "pydict \<Rightarrow> py_error + pydict" where
  "refresh_flag sl =
     (case sl ''lead_score'' of
        None \<Rightarrow> Inl KeyError
      | Some v \<Rightarrow>
          (case ge_80 v of
             Inl e \<Rightarrow> Inl e
           | Inr flag \<Rightarrow> Inr (sl(''high_priority_flag'' \<mapsto> PBool flag))))"

definition update_document ::
  "string \<Rightarrow> nat \<Rightarrow> nat \<Rightarrow> int \<Rightarrow> 'a doc_scheme \<Rightarrow> py_error + ('a doc_scheme \<times> bool)" where
  "update_document now pair_draw note_draw base d =
     (case sales_lead d of
        None \<Rightarrow> Inr (d, False)
      | Some sl0 \<Rightarrow>
          (case random_lead_status_and_pipeline_stage pair_draw of
             Inl e \<Rightarrow> Inl e
           | Inr (new_status, new_pipeline) \<Rightarrow>
               let st1 = refresh_status_and_pipeline now new_status new_pipeline
                           (history_of d, sl0, False)
               in case random_notes note_draw of
                    Inl e \<Rightarrow> Inl e
                  | Inr new_note \<Rightarrow>
                      (case refresh_score now base new_status new_pipeline
                              (refresh_notes now new_note st1) of
                         Inl e \<Rightarrow> Inl e
                       | Inr (h3, sl3, changed) \<Rightarrow>
                           (case refresh_flag sl3 of
                              Inl e \<Rightarrow> Inl e
                            | Inr sl4 \<Rightarrow>
                                if changed
                                then Inr (d\<lparr>sales_lead := Some sl4, old_data := Some h3\<rparr>, True)
                                else Inr (d\<lparr>sales_lead := Some sl4\<rparr>, False)))))"


section \<open>The edit form of \<^verbatim>\<open>streamlit_app.py\<close>\<close>

text \<open>
  The values of the form widgets when the form is submitted. The date widget's value is
  held as the string \<^verbatim>\<open>strftime("%Y-%m-%d")\<close> makes of it.
\<close>

record form =
  new_company_name :: string
  new_market_region :: string
  new_market_cap :: int
  new_annual_sales :: int
  new_num_customers :: int
  new_sales_contact_name :: string
  new_sales_contact_email :: string
  new_last_contact_date :: string
  new_lead_source :: string
  new_crm_activity :: bool
  new_lead_status :: string
  new_pipeline_stage :: string
  new_last_deal_size :: int
  new_notes :: string
  new_quarter :: string

text \<open>
  The dictionary \<^verbatim>\<open>fields_to_check\<close>, in source order: field name, new value, old value.
\<close>

definition fields_to_check :: "form \<Rightarrow> int \<Rightarrow> pydict \<Rightarrow> (string \<times> pyval \<times> pyval) list" where
  "fields_to_check f new_lead_score sl =
     [(''company_name'', PStr (new_company_name f), get sl ''company_name''),
      (''primary_market_region'', PStr (new_market_region f), get sl ''primary_market_region''),
      (''market_cap_usd'', PInt (new_market_cap f), get sl ''market_cap_usd''),
      (''annual_sales_usd'', PInt (new_annual_sales f), get sl ''annual_sales_usd''),
      (''number_of_customers'', PInt (new_num_customers f), get sl ''number_of_customers''),
      (''sales_contact_name'', PStr (new_sales_contact_name f), get sl ''sales_contact_name''),
      (''sales_contact_email'', PStr (new_sales_contact_email f), get sl ''sales_contact_email''),
      (''date_of_last_contact'', PStr (new_last_contact_date f), get sl ''date_of_last_contact''),
      (''lead_source'', PStr (new_lead_source f), get sl ''lead_source''),
      (''crm_activity_flag'', PBool (new_crm_activity f), get sl ''crm_activity_flag''),
      (''lead_status'', PStr (new_lead_status f), get sl ''lead_status''),
      (''pipeline_stage'', PStr (new_pipeline_stage f), get sl ''pipeline_stage''),
      (''last_deal_size_usd'', PInt (new_last_deal_size f), get sl ''last_deal_size_usd''),
      (''lead_score'', PInt new_lead_score, get sl ''lead_score''),
      (''notes'', PStr (new_notes f), get sl ''notes''),
      (''quarter'', PStr (new_quarter f), get sl ''quarter'')]"

text \<open>
  The loop over \<^verbatim>\<open>fields_to_check.items()\<close>, with the history map and the flag
  \<^verbatim>\<open>changed\<close> as its state.
\<close>

fun audit_loop :: "string \<Rightarrow> (string \<times> pyval \<times> pyval) list \<Rightarrow> history \<times> bool \<Rightarrow> history \<times> bool" where
  "audit_loop now [] (h, changed) = (h, changed)"
| "audit_loop now ((field_name, new_v, old_v) # rest) (h, changed) =
     (if py_ne new_v old_v
      then audit_loop now rest
             (h(field_name \<mapsto> \<lparr>old_value = old_v, audit_date = now\<rparr>), True)
      else audit_loop now rest (h, changed))"

text \<open>
  The assignments to \<^verbatim>\<open>updated_doc["sales_lead"]\<close>: every form value, the new score and
  the flag derived from it (the score is an integer, never \<^verbatim>\<open>None\<close>).
\<close>

definition updated_sales_lead :: "form \<Rightarrow> int \<Rightarrow> pydict \<Rightarrow> pydict" where
  "updated_sales_lead f new_lead_score sl =
     sl(''company_name'' \<mapsto> PStr (new_company_name f),
        ''primary_market_region'' \<mapsto> PStr (new_market_region f),
        ''market_cap_usd'' \<mapsto> PInt (new_market_cap f),
        ''annual_sales_usd'' \<mapsto> PInt (new_annual_sales f),
        ''number_of_customers'' \<mapsto> PInt (new_num_customers f),
        ''sales_contact_name'' \<mapsto> PStr (new_sales_contact_name f),
        ''sales_contact_email'' \<mapsto> PStr (new_sales_contact_email f),
        ''date_of_last_contact'' \<mapsto> PStr (new_last_contact_date f),
        ''lead_source'' \<mapsto> PStr (new_lead_source f),
        ''crm_activity_flag'' \<mapsto> PBool (new_crm_activity f),
        ''lead_status'' \<mapsto> PStr (new_lead_status f),
        ''pipeline_stage'' \<mapsto> PStr (new_pipeline_stage f),
        ''last_deal_size_usd'' \<mapsto> PInt (new_last_deal_size f),
        ''lead_score'' \<mapsto> PInt new_lead_score,
        ''notes'' \<mapsto> PStr (new_notes f),
        ''quarter'' \<mapsto> PStr (new_quarter f),
        ''high_priority_flag'' \<mapsto> PBool (80 \<le> new_lead_score))"

text \<open>
  What a submission does to the store: it upserts a document under the lead's key, or it
  reports that nothing changed and writes nothing.
\<close>

datatype 'a submit_result = Upserted 'a | No_changes_detected

text \<open>
  The handler of a submitted edit form whose required fields are filled in (the
  \<^verbatim>\<open>else\<close> branch of the validation), for the selected document \<open>d\<close>. The clock
  reading and the base draw of the score are explicit. The form is filled from
  \<^verbatim>\<open>d.get("sales_lead", {})\<close>, but the update subscripts \<^verbatim>\<open>updated_doc["sales_lead"]\<close>,
  which raises KeyError when the document has no such key.
\<close>

definition edit_lead_submit ::
  "string \<Rightarrow> int \<Rightarrow> form \<Rightarrow> 'a doc_scheme \<Rightarrow> py_error + 'a doc_scheme submit_result" where
  "edit_lead_submit now base f d =
     (let sl = lead_of d;
          h0 = history_of d;
          new_lead_score = lead_score_weighted base (new_last_deal_size f)
                             (new_lead_status f) (new_pipeline_stage f) (new_crm_activity f);
          (h1, changed) = audit_loop now (fields_to_check f new_lead_score sl) (h0, False)
      in if changed
         then (case sales_lead d of
                 None \<Rightarrow> Inl KeyError
               | Some m \<Rightarrow>
                   Inr (Upserted (d\<lparr>sales_lead := Some (updated_sales_lead f new_lead_score m),
                                   old_data := Some h1\<rparr>)))
         else Inr No_changes_detected)"

text \<open>The document held under the lead's key after a submission.\<close>

fun stored_after :: "'a \<Rightarrow> 'a submit_result \<Rightarrow> 'a" where
  "stored_after d (Upserted d') = d'"
| "stored_after d No_changes_detected = d"


section \<open>Notions used to state the properties\<close>

text \<open>
  The invariant of the data model: the high-priority flag is stored and says whether the
  stored score is a number that is at least 80 (false for a missing or null score).
\<close>

definition score_high :: "pyval option \<Rightarrow> bool" where
  "score_high v =
     (case v of
        Some (PInt n) \<Rightarrow> 80 \<le> n
      | Some (PBool b) \<Rightarrow> 80 \<le> (if b then 1 else 0 :: int)
      | _ \<Rightarrow> False)"

definition flag_consistent :: "'a doc_scheme \<Rightarrow> bool" where
  "flag_consistent d =
     (case sales_lead d of
        None \<Rightarrow> False
      | Some sl \<Rightarrow> sl ''high_priority_flag'' = Some (PBool (score_high (sl ''lead_score''))))"

text \<open>
  The tracked fields of a submission with their proposed and current values, the score
  computed from the form; the proposed value of a field; a field whose proposed value
  differs from its current value; a submission none of whose fields differs.
\<close>

definition proposed_fields :: "int \<Rightarrow> form \<Rightarrow> 'a doc_scheme \<Rightarrow> (string \<times> pyval \<times> pyval) list" where
  "proposed_fields base f d =
     fields_to_check f
       (lead_score_weighted base (new_last_deal_size f) (new_lead_status f)
          (new_pipeline_stage f) (new_crm_activity f))
       (lead_of d)"

definition proposed :: "(string \<times> pyval \<times> pyval) list \<Rightarrow> string \<Rightarrow> pyval" where
  "proposed fs k = (case map_of fs k of None \<Rightarrow> PNone | Some (new, old) \<Rightarrow> new)"

definition differs :: "(string \<times> pyval \<times> pyval) list \<Rightarrow> string \<Rightarrow> bool" where
  "differs fs k = (case map_of fs k of None \<Rightarrow> False | Some (new, old) \<Rightarrow> py_ne new old)"

fun all_equal :: "(string \<times> pyval \<times> pyval) list \<Rightarrow> bool" where
  "all_equal [] = True"
| "all_equal ((k, new, old) # fs) = (py_eq new old \<and> all_equal fs)"


section \<open>Example documents\<close>

text \<open>
  A form with notes \<open>A\<close> and the forms that only change the notes; the lead that holds
  exactly the values of a form, with score 36 (base 20, a deal of 1,000,000, Prospect,
  Discovery, no CRM activity) and its flag; two audit dates.
\<close>

abbreviation time1 :: string where "time1 \<equiv> ''2025-01-01T00:00:00Z''"
abbreviation time2 :: string where "time2 \<equiv> ''2025-01-02T00:00:00Z''"

definition form_A :: form where
  "form_A =
     \<lparr>new_company_name = ''Acme Corp.'',
      new_market_region = ''Europe'',
      new_market_cap = 50000000,
      new_annual_sales = 5000000,
      new_num_customers = 500,
      new_sales_contact_name = ''Ada'',
      new_sales_contact_email = ''ada@acme.example'',
      new_last_contact_date = ''2025-01-15'',
      new_lead_source = ''Referral'',
      new_crm_activity = False,
      new_lead_status = PROSPECT,
      new_pipeline_stage = DISCOVERY,
      new_last_deal_size = 1000000,
      new_notes = ''A'',
      new_quarter = ''Q1 2025''\<rparr>"

definition form_with_notes :: "string \<Rightarrow> form" where
  "form_with_notes n = form_A\<lparr>new_notes := n\<rparr>"

definition lead_with_notes :: "string \<Rightarrow> pydict" where
  "lead_with_notes n = updated_sales_lead (form_with_notes n) 36 Map.empty"

definition doc_with_notes :: "string \<Rightarrow> history option \<Rightarrow> doc" where
  "doc_with_notes n h = \<lparr>sales_lead = Some (lead_with_notes n), old_data = h\<rparr>"


text \<open>
  The first three notes of \<^verbatim>\<open>random_notes\<close>, and the document a refresh at \<open>time1\<close>
  returns for the lead with the first note when it draws the pair (Qualified, Discovery),
  the first note and base 20: the score moves from 36 to 41.
\<close>

abbreviation note0 :: string where "note0 \<equiv> ''Contacted client, awaiting response.''"
abbreviation note1 :: string where "note1 \<equiv> ''Sent proposal, pending approval.''"
abbreviation note2 :: string where "note2 \<equiv> ''Negotiations ongoing, positive signs.''"

definition doc_refreshed :: doc where
  "doc_refreshed =
     \<lparr>sales_lead = Some ((lead_with_notes note0)
        (''lead_status'' \<mapsto> PStr QUALIFIED,
         ''pipeline_stage'' \<mapsto> PStr DISCOVERY,
         ''lead_score'' \<mapsto> PInt 41,
         ''high_priority_flag'' \<mapsto> PBool False)),
      old_data = Some
        [''lead_status'' \<mapsto> \<lparr>old_value = PStr PROSPECT, audit_date = time1\<rparr>,
         ''pipeline_stage'' \<mapsto> \<lparr>old_value = PStr DISCOVERY, audit_date = time1\<rparr>,
         ''lead_score'' \<mapsto> \<lparr>old_value = PInt 36, audit_date = time1\<rparr>]\<rparr>"




section \<open>Properties of the lead score\<close>

text \<open>
  Claim C1. With lead status Won or Lost the score is exactly 0, whatever the base draw,
  the deal size, the pipeline stage and the CRM flag are: the terminal-state test comes
  before the status and pipeline contributions.
\<close>

theorem lead_score_weighted_won_lost:
  "lead_score_weighted base last_deal_size WON pipeline_stage crm_active = 0
   \<and> lead_score_weighted base last_deal_size LOST pipeline_stage crm_active = 0"
  by (simp add: lead_score_weighted_def)

text \<open>
  Claim C2. The score always lies in the integer range from 0 to 100. The final clamp makes
  this hold for every input, in particular for every non-negative deal size and every base
  draw between 20 and 50.
\<close>

theorem lead_score_weighted_range:
  "0 \<le> lead_score_weighted base last_deal_size lead_status pipeline_stage crm_active
   \<and> lead_score_weighted base last_deal_size lead_status pipeline_stage crm_active \<le> 100"
  by (simp add: lead_score_weighted_def Let_def)

text \<open>
  Claim C3. For a status other than Won and Lost the source computes what the specification
  describes: the base, plus the deal-size contribution capped at 30, plus the status points
  (Negotiation 15, Qualified 10, Prospect 5, anything else 0), plus the stage points, plus 10
  for an active CRM flag, truncated to an integer and clamped to the range 0 to 100. With
  base 20, a deal of 5,000,000, status and stage Negotiation and an active CRM flag the
  score is 95.
\<close>

theorem lead_score_weighted_refines_spec:
  "(lead_status \<noteq> WON \<and> lead_status \<noteq> LOST \<longrightarrow>
      lead_score_weighted base last_deal_size lead_status pipeline_stage crm_active
        = spec_compute_score base last_deal_size lead_status pipeline_stage crm_active)
   \<and> lead_score_weighted 20 5000000 NEGOTIATION NEGOTIATION True = 95"
proof (intro conjI impI)
  assume ns: "lead_status \<noteq> WON \<and> lead_status \<noteq> LOST"
  have st: "dict_get STATUS_SCORES lead_status 0 = dict_get spec_status_points lead_status 0"
    using ns by (simp add: dict_get_def STATUS_SCORES_def spec_status_points_def)
  have pl: "dict_get PIPELINE_SCORES pipeline_stage 0 = dict_get spec_stage_points pipeline_stage 0"
    by (simp add: dict_get_def PIPELINE_SCORES_def spec_stage_points_def)
  have cl: "min (max n 0) 100 = spec_clamp n" for n :: int
    by (simp add: spec_clamp_def)
  show "lead_score_weighted base last_deal_size lead_status pipeline_stage crm_active
        = spec_compute_score base last_deal_size lead_status pipeline_stage crm_active"
    using ns
    by (simp add: lead_score_weighted_def spec_compute_score_def deal_score_def Let_def
        st pl cl)
next
  show "lead_score_weighted 20 5000000 NEGOTIATION NEGOTIATION True = 95"
    by (simp add: lead_score_weighted_def deal_score_def dict_get_def STATUS_SCORES_def
        PIPELINE_SCORES_def py_int_def)
qed

theorem lead_score_weighted_refines_spec_witness:
  "PROSPECT \<noteq> WON \<and> PROSPECT \<noteq> LOST
   \<and> lead_score_weighted 25 333332 PROSPECT DISCOVERY False = 37
   \<and> spec_compute_score 25 333332 PROSPECT DISCOVERY False = 37"
  using lead_score_weighted_refines_spec [of PROSPECT 25 333332 DISCOVERY False]
  by (simp add: spec_compute_score_def spec_clamp_def dict_get_def spec_status_points_def
      spec_stage_points_def py_int_def)

lemma floor_rat_numeral_div:
  "\<lfloor>(numeral a :: rat) / numeral b\<rfloor> = numeral a div numeral b"
  using floor_divide_of_int_eq [of "numeral a" "numeral b", where ?'a = rat] by simp

lemma deal_score_mono: "d1 \<le> d2 \<Longrightarrow> deal_score d1 \<le> deal_score d2"
  by (simp add: deal_score_def divide_right_mono min.coboundedI1)

lemma py_int_mono: "x \<le> y \<Longrightarrow> py_int x \<le> py_int y"
proof -
  assume xy: "x \<le> y"
  consider "0 \<le> x" | "x < 0" "y < 0" | "x < 0" "0 \<le> y" by linarith
  then show ?thesis
  proof cases
    case 1
    with xy show ?thesis by (simp add: py_int_def floor_mono)
  next
    case 2
    with xy show ?thesis by (simp add: py_int_def ceiling_mono)
  next
    case 3
    have "py_int x = \<lceil>x\<rceil>" "py_int y = \<lfloor>y\<rfloor>"
      using 3 by (simp_all add: py_int_def)
    moreover have "\<lceil>x\<rceil> \<le> 0" using 3 by (simp add: ceiling_le_zero)
    moreover have "0 \<le> \<lfloor>y\<rfloor>" using 3 by simp
    ultimately show ?thesis by linarith
  qed
qed

text \<open>
  Claim C8. With the base draw, status, stage and CRM flag fixed, a larger deal never gives a
  smaller score; the deal-size contribution never exceeds 30 and is exactly 30 from a deal
  of 166666 * 30 = 4,999,980 upwards.
\<close>

theorem lead_score_weighted_mono_deal_size:
  "(d1 \<le> d2 \<longrightarrow>
      lead_score_weighted base d1 lead_status pipeline_stage crm_active
        \<le> lead_score_weighted base d2 lead_status pipeline_stage crm_active)
   \<and> deal_score d \<le> 30
   \<and> (166666 * 30 \<le> d \<longrightarrow> deal_score d = 30)"
proof (intro conjI impI)
  assume le: "d1 \<le> d2"
  have ds: "deal_score d1 \<le> deal_score d2"
    using le by (rule deal_score_mono)
  have step: "py_int (of_int base + deal_score d1 + k) \<le> py_int (of_int base + deal_score d2 + k)"
    for k :: rat
    using ds by (intro py_int_mono) simp
  show "lead_score_weighted base d1 lead_status pipeline_stage crm_active
        \<le> lead_score_weighted base d2 lead_status pipeline_stage crm_active"
  proof (cases "lead_status \<in> set [WON, LOST]")
    case True
    then show ?thesis by (simp add: lead_score_weighted_def)
  next
    case False
    define k :: rat where
      "k = of_int (dict_get STATUS_SCORES lead_status 0)
           + of_int (dict_get PIPELINE_SCORES pipeline_stage 0)
           + (if crm_active then 10 else 0)"
    have unf: "lead_score_weighted base x lead_status pipeline_stage crm_active
               = min (max (py_int (of_int base + deal_score x + k)) 0) 100" for x
      using False by (simp add: lead_score_weighted_def Let_def k_def add.assoc)
    show ?thesis
      unfolding unf using step [of k] by simp
  qed
next
  show "deal_score d \<le> 30" by (simp add: deal_score_def)
next
  assume big: "166666 * 30 \<le> d"
  have "(30::rat) \<le> of_int d / 166666"
  proof -
    have "(of_int (166666 * 30) :: rat) \<le> of_int d"
      using big by (simp only: of_int_le_iff)
    then show ?thesis by (simp add: le_divide_eq)
  qed
  then show "deal_score d = 30" by (simp add: deal_score_def)
qed

theorem lead_score_weighted_mono_deal_size_witness:
  "(0::int) \<le> 1000000 \<and> (1000000::int) \<le> 2000000
   \<and> lead_score_weighted 20 1000000 PROSPECT DISCOVERY False = 36
   \<and> lead_score_weighted 20 2000000 PROSPECT DISCOVERY False = 42
   \<and> (166666 * 30 :: int) \<le> 5000000 \<and> deal_score 5000000 = 30"
  using lead_score_weighted_mono_deal_size
    [of 1000000 2000000 20 PROSPECT DISCOVERY False 5000000]
  by (simp add: lead_score_weighted_def deal_score_def dict_get_def STATUS_SCORES_def
      PIPELINE_SCORES_def py_int_def floor_rat_numeral_div)

lemma choices_built:
  "status_loop LEAD_STATUSES [] =
     Inr [(PROSPECT, DISCOVERY), (PROSPECT, PROPOSAL_SENT), (PROSPECT, CONTRACT_SENT),
          (PROSPECT, NEGOTIATION),
          (QUALIFIED, DISCOVERY), (QUALIFIED, PROPOSAL_SENT), (QUALIFIED, CONTRACT_SENT),
          (QUALIFIED, NEGOTIATION),
          (NEGOTIATION, PROPOSAL_SENT), (NEGOTIATION, CONTRACT_SENT), (NEGOTIATION, NEGOTIATION),
          (WON, CLOSED_WON),
          (LOST, CLOSED_LOST)]"
  by (simp add: LEAD_STATUSES_def STATUS_PIPELINE_MAPPING_def)

lemma unique_index_of_distinct:
  "distinct xs \<Longrightarrow> x \<in> set xs \<Longrightarrow> \<exists>!i. i < length xs \<and> xs ! i = x"
  by (metis in_set_conv_nth nth_eq_iff_index_eq)


text \<open>
  Claim C9. Every pair the generator returns is in the table of valid pairs. Each of the 13
  indices the random choice can draw yields a pair, the table has exactly 13 pairs, and every
  pair of the table is returned for exactly one index: a uniform index draw is a uniform
  draw over the table.
\<close>

theorem random_pair_valid_and_uniform:
  "(\<forall>p. random_lead_status_and_pipeline_stage draw = Inr p \<longrightarrow> p \<in> spec_valid_pairs)
   \<and> (draw < 13 \<longrightarrow> (\<exists>p. random_lead_status_and_pipeline_stage draw = Inr p))
   \<and> card spec_valid_pairs = 13
   \<and> (\<forall>p \<in> spec_valid_pairs.
         \<exists>!i. i < 13 \<and> random_lead_status_and_pipeline_stage i = Inr p)"
proof -
  define L where
    "L = [(PROSPECT, DISCOVERY), (PROSPECT, PROPOSAL_SENT), (PROSPECT, CONTRACT_SENT),
          (PROSPECT, NEGOTIATION),
          (QUALIFIED, DISCOVERY), (QUALIFIED, PROPOSAL_SENT), (QUALIFIED, CONTRACT_SENT),
          (QUALIFIED, NEGOTIATION),
          (NEGOTIATION, PROPOSAL_SENT), (NEGOTIATION, CONTRACT_SENT), (NEGOTIATION, NEGOTIATION),
          (WON, CLOSED_WON),
          (LOST, CLOSED_LOST)]"
  have built: "status_loop LEAD_STATUSES [] = Inr L"
    unfolding L_def by (rule choices_built)
  have len: "length L = 13" by (simp add: L_def)
  have dist: "distinct L" by (simp add: L_def)
  have elems: "set L = spec_valid_pairs"
    unfolding L_def spec_valid_pairs_def by (simp only: list.simps(15) Un_insert_left
        insert_commute) simp
  have run: "random_lead_status_and_pipeline_stage i
             = (if i < 13 then Inr (L ! i) else Inl IndexError)" for i
  proof -
    have "L \<noteq> []" using len by auto
    then show ?thesis
      by (simp add: random_lead_status_and_pipeline_stage_def built random_choice_def len)
  qed
  have valid: "\<forall>p. random_lead_status_and_pipeline_stage draw = Inr p \<longrightarrow> p \<in> spec_valid_pairs"
  proof (intro allI impI)
    fix p assume "random_lead_status_and_pipeline_stage draw = Inr p"
    then have "draw < 13" "p = L ! draw"
      by (auto simp: run split: if_splits)
    then have "p \<in> set L" using len by simp
    then show "p \<in> spec_valid_pairs" by (simp only: elems)
  qed
  have total: "draw < 13 \<longrightarrow> (\<exists>p. random_lead_status_and_pipeline_stage draw = Inr p)"
    by (simp add: run)
  have count: "card spec_valid_pairs = 13"
    using distinct_card [OF dist] by (simp only: elems len)
  have uniform: "\<forall>p \<in> spec_valid_pairs.
                   \<exists>!i. i < 13 \<and> random_lead_status_and_pipeline_stage i = Inr p"
  proof
    fix p assume "p \<in> spec_valid_pairs"
    then have "p \<in> set L" by (simp only: elems)
    then have ex1: "\<exists>!i. i < length L \<and> L ! i = p"
      using dist by (intro unique_index_of_distinct)
    have same: "(i < 13 \<and> random_lead_status_and_pipeline_stage i = Inr p)
                = (i < length L \<and> L ! i = p)" for i
      by (auto simp: run len)
    show "\<exists>!i. i < 13 \<and> random_lead_status_and_pipeline_stage i = Inr p"
      using ex1 by (simp only: same)
  qed
  from valid total count uniform show ?thesis by (intro conjI)
qed

theorem random_pair_valid_and_uniform_witness:
  "random_lead_status_and_pipeline_stage 8 = Inr (NEGOTIATION, PROPOSAL_SENT)
   \<and> (NEGOTIATION, PROPOSAL_SENT) \<in> spec_valid_pairs
   \<and> (8::nat) < 13
   \<and> (\<exists>!i. i < 13 \<and> random_lead_status_and_pipeline_stage i = Inr (NEGOTIATION, PROPOSAL_SENT))"
proof -
  have run: "random_lead_status_and_pipeline_stage 8 = Inr (NEGOTIATION, PROPOSAL_SENT)"
    by (simp add: random_lead_status_and_pipeline_stage_def random_choice_def
        LEAD_STATUSES_def STATUS_PIPELINE_MAPPING_def)
  note gen = random_pair_valid_and_uniform [of 8]
  from gen run have mem: "(NEGOTIATION, PROPOSAL_SENT) \<in> spec_valid_pairs"
    by blast
  from gen mem
  have "\<exists>!i. i < 13 \<and> random_lead_status_and_pipeline_stage i = Inr (NEGOTIATION, PROPOSAL_SENT)"
    by blast
  with run mem show ?thesis by simp
qed

text \<open>
  Claim C10. A document without the key \<^verbatim>\<open>"sales_lead"\<close> is returned as it is, with
  \<^verbatim>\<open>changed\<close> false, whatever the clock and the random draws are: no field, no history
  entry and no flag is written.
\<close>

theorem update_document_without_sales_lead:
  "sales_lead d = None \<Longrightarrow> update_document now pair_draw note_draw base d = Inr (d, False)"
  by (simp add: update_document_def)

theorem update_document_without_sales_lead_witness:
  "sales_lead \<lparr>sales_lead = None, old_data = None\<rparr> = None
   \<and> update_document ''2025-01-01T00:00:00Z'' 0 0 20 \<lparr>sales_lead = None, old_data = None\<rparr>
       = Inr (\<lparr>sales_lead = None, old_data = None\<rparr>, False)"
  using update_document_without_sales_lead
    [of "\<lparr>sales_lead = None, old_data = None\<rparr>" "''2025-01-01T00:00:00Z''" 0 0 20]
  by simp

subsection \<open>The audit loop\<close>

lemma audit_loop_history:
  "distinct (map fst fs) \<Longrightarrow>
   fst (audit_loop now fs (h, ch)) k =
     (if differs fs k then Some \<lparr>old_value = snd (the (map_of fs k)), audit_date = now\<rparr>
      else h k)"
proof (induction fs arbitrary: h ch)
  case Nil
  then show ?case by (simp add: differs_def)
next
  case (Cons x fs)
  obtain name new old where x: "x = (name, new, old)" by (cases x)
  from Cons.prems have d: "distinct (map fst fs)" and fresh: "name \<notin> fst ` set fs"
    by (simp_all add: x)
  have absent: "map_of fs name = None"
    using fresh by (simp add: map_of_eq_None_iff)
  note IH = Cons.IH [OF d]
  show ?case
  proof (cases "k = name")
    case True
    have gone: "\<not> differs fs name" by (simp add: differs_def absent)
    have here: "differs (x # fs) name = py_ne new old"
      "snd (the (map_of (x # fs) name)) = old"
      by (simp_all add: x differs_def)
    have IH_name: "fst (audit_loop now fs (h', ch')) name = h' name" for h' ch'
      using IH [of h' ch'] gone by (simp add: True)
    show ?thesis
      unfolding True here by (simp add: x IH_name)
  next
    case False
    then have "differs (x # fs) k = differs fs k" "map_of (x # fs) k = map_of fs k"
      by (simp_all add: x differs_def)
    then show ?thesis
      using False by (simp add: x IH)
  qed
qed

lemma audit_loop_changed:
  "snd (audit_loop now fs (h, ch)) = (ch \<or> \<not> all_equal fs)"
proof (induction fs arbitrary: h ch)
  case Nil
  then show ?case by simp
next
  case (Cons x fs)
  obtain name new old where x: "x = (name, new, old)" by (cases x)
  show ?case by (simp add: x Cons.IH py_ne_def)
qed

lemma all_equal_differs:
  "distinct (map fst fs) \<Longrightarrow> all_equal fs = (\<forall>k. \<not> differs fs k)"
proof (induction fs)
  case Nil
  then show ?case by (simp add: differs_def)
next
  case (Cons x fs)
  obtain name new old where x: "x = (name, new, old)" by (cases x)
  from Cons.prems have d: "distinct (map fst fs)" and fresh: "name \<notin> fst ` set fs"
    by (simp_all add: x)
  have absent: "map_of fs name = None"
    using fresh by (simp add: map_of_eq_None_iff)
  have here: "differs (x # fs) name = py_ne new old"
    by (simp add: x differs_def)
  have there: "k \<noteq> name \<Longrightarrow> differs (x # fs) k = differs fs k" for k
    by (simp add: x differs_def)
  have gone: "\<not> differs fs name"
    by (simp add: differs_def absent)
  have "(\<forall>k. \<not> differs (x # fs) k) = (\<not> py_ne new old \<and> (\<forall>k. \<not> differs fs k))"
    using here there gone by metis
  then show ?case
    by (simp add: x Cons.IH [OF d] py_ne_def)
qed

lemma fields_to_check_distinct: "distinct (map fst (fields_to_check f s sl))"
  by (simp add: fields_to_check_def)

lemma fields_to_check_values:
  "map_of (fields_to_check f s sl) k = Some (new, old) \<Longrightarrow>
   old = get sl k \<and> updated_sales_lead f s m k = Some new"
  by (auto simp: fields_to_check_def updated_sales_lead_def split: if_splits)

lemma edit_lead_submit_cases:
  "edit_lead_submit now base f d =
     (if all_equal (proposed_fields base f d) then Inr No_changes_detected
      else case sales_lead d of
             None \<Rightarrow> Inl KeyError
           | Some m \<Rightarrow>
               Inr (Upserted (d\<lparr>sales_lead := Some (updated_sales_lead f
                        (lead_score_weighted base (new_last_deal_size f) (new_lead_status f)
                           (new_pipeline_stage f) (new_crm_activity f)) m),
                      old_data := Some (fst (audit_loop now (proposed_fields base f d)
                                              (history_of d, False)))\<rparr>)))"
proof -
  let ?fs = "proposed_fields base f d"
  obtain h1 changed where run: "audit_loop now ?fs (history_of d, False) = (h1, changed)"
    by (cases "audit_loop now ?fs (history_of d, False)")
  have ch: "changed = (\<not> all_equal ?fs)"
    using audit_loop_changed [of now ?fs "history_of d" False] by (simp add: run)
  have unf: "proposed_fields base f d =
        fields_to_check f
          (lead_score_weighted base (new_last_deal_size f) (new_lead_status f)
             (new_pipeline_stage f) (new_crm_activity f))
          (lead_of d)"
    by (simp add: proposed_fields_def)
  show ?thesis
    unfolding edit_lead_submit_def Let_def unf [symmetric] run
    by (cases "sales_lead d") (simp_all add: ch)
qed

subsection \<open>The scheduled refresh\<close>

lemma ge_80_score_high: "ge_80 v = Inr flag \<Longrightarrow> score_high (Some v) = flag"
  by (cases v) (auto simp: score_high_def)

lemma py_eq_PStr: "py_eq (PStr s) v = (v = PStr s)"
  by (cases v) auto

lemma refresh_status_and_pipeline_result:
  assumes "refresh_status_and_pipeline now new_status new_pipeline (h, sl, ch) = (h', sl', ch')"
  shows "h' k =
           (if (k = ''lead_status'' \<or> k = ''pipeline_stage'')
                \<and> (py_ne (PStr new_status) (get sl ''lead_status'')
                     \<or> py_ne (PStr new_pipeline) (get sl ''pipeline_stage''))
            then Some \<lparr>old_value = get sl k, audit_date = now\<rparr>
            else h k)"
    and "k \<noteq> ''lead_status'' \<Longrightarrow> k \<noteq> ''pipeline_stage'' \<Longrightarrow> sl' k = sl k"
    and "ch' = (ch \<or> py_ne (PStr new_status) (get sl ''lead_status'')
                   \<or> py_ne (PStr new_pipeline) (get sl ''pipeline_stage''))"
  using assms
  by (auto simp: refresh_status_and_pipeline_def Let_def split: if_splits)

lemma refresh_notes_result:
  assumes "refresh_notes now new_note (h, sl, ch) = (h', sl', ch')"
  shows "h' k =
           (if k = ''notes'' \<and> py_ne (PStr new_note) (get sl ''notes'')
            then Some \<lparr>old_value = get sl ''notes'', audit_date = now\<rparr>
            else h k)"
    and "k \<noteq> ''notes'' \<Longrightarrow> sl' k = sl k"
    and "get sl' ''notes'' = PStr new_note"
    and "ch' = (ch \<or> py_ne (PStr new_note) (get sl ''notes''))"
  using assms
  by (auto simp: refresh_notes_def Let_def py_ne_def py_eq_PStr get_def split: if_splits)

lemma refresh_score_result:
  assumes "refresh_score now base new_status new_pipeline (h, sl, ch) = Inr (h', sl', ch')"
    and "as_number (get_or sl ''last_deal_size_usd'' (PInt 0)) = Inr deal"
    and "new_score = lead_score_weighted base deal new_status new_pipeline
           (truthy (get_or sl ''crm_activity_flag'' (PBool False)))"
  shows "h' k =
           (if k = ''lead_score'' \<and> py_ne (PInt new_score) (get_or sl ''lead_score'' (PInt 0))
            then Some \<lparr>old_value = get_or sl ''lead_score'' (PInt 0), audit_date = now\<rparr>
            else h k)"
    and "k \<noteq> ''lead_score'' \<Longrightarrow> sl' k = sl k"
    and "ch' = (ch \<or> py_ne (PInt new_score) (get_or sl ''lead_score'' (PInt 0)))"
  using assms
  by (auto simp: refresh_score_def Let_def split: if_splits)

lemma refresh_flag_result:
  assumes "refresh_flag sl = Inr sl'"
  shows "sl' ''high_priority_flag'' = Some (PBool (score_high (sl' ''lead_score'')))"
    and "k \<noteq> ''high_priority_flag'' \<Longrightarrow> sl' k = sl k"
  using assms
  by (auto simp: refresh_flag_def dest: ge_80_score_high split: option.splits sum.splits)

lemma update_document_stages:
  assumes lead: "sales_lead d = Some sl"
    and pair: "random_lead_status_and_pipeline_stage pair_draw = Inr (new_status, new_pipeline)"
    and nt: "random_notes note_draw = Inr new_note"
    and run: "update_document now pair_draw note_draw base d = Inr (d', changed)"
  obtains h1 sl1 ch1 h2 sl2 ch2 h3 sl3 sl4 where
    "refresh_status_and_pipeline now new_status new_pipeline (history_of d, sl, False)
       = (h1, sl1, ch1)"
    "refresh_notes now new_note (h1, sl1, ch1) = (h2, sl2, ch2)"
    "refresh_score now base new_status new_pipeline (h2, sl2, ch2) = Inr (h3, sl3, changed)"
    "refresh_flag sl3 = Inr sl4"
    "d' = (if changed then d\<lparr>sales_lead := Some sl4, old_data := Some h3\<rparr>
           else d\<lparr>sales_lead := Some sl4\<rparr>)"
proof -
  obtain h1 sl1 ch1 where s1:
    "refresh_status_and_pipeline now new_status new_pipeline (history_of d, sl, False)
       = (h1, sl1, ch1)"
    by (metis prod_cases3)
  obtain h2 sl2 ch2 where s2: "refresh_notes now new_note (h1, sl1, ch1) = (h2, sl2, ch2)"
    by (metis prod_cases3)
  have unf: "update_document now pair_draw note_draw base d =
      (case refresh_score now base new_status new_pipeline (h2, sl2, ch2) of
         Inl e \<Rightarrow> Inl e
       | Inr (h3, sl3, changed) \<Rightarrow>
           (case refresh_flag sl3 of
              Inl e \<Rightarrow> Inl e
            | Inr sl4 \<Rightarrow>
                if changed
                then Inr (d\<lparr>sales_lead := Some sl4, old_data := Some h3\<rparr>, True)
                else Inr (d\<lparr>sales_lead := Some sl4\<rparr>, False)))"
    by (simp add: update_document_def lead pair nt s1 s2)
  from run unf obtain h3 sl3 ch3 where s3:
    "refresh_score now base new_status new_pipeline (h2, sl2, ch2) = Inr (h3, sl3, ch3)"
    by (cases "refresh_score now base new_status new_pipeline (h2, sl2, ch2)") auto
  from run unf s3 obtain sl4 where s4: "refresh_flag sl3 = Inr sl4"
    by (cases "refresh_flag sl3") auto
  from run have res: "changed = ch3"
    "d' = (if changed then d\<lparr>sales_lead := Some sl4, old_data := Some h3\<rparr>
           else d\<lparr>sales_lead := Some sl4\<rparr>)"
    by (auto simp: unf s3 s4 split: if_splits)
  show thesis
    using that [OF s1 s2 _ s4 res(2)] s3 res(1) by simp
qed

lemma update_document_history:
  assumes lead: "sales_lead d = Some sl"
    and pair: "random_lead_status_and_pipeline_stage pair_draw = Inr (new_status, new_pipeline)"
    and nt: "random_notes note_draw = Inr new_note"
    and deal: "as_number (get_or sl ''last_deal_size_usd'' (PInt 0)) = Inr deal"
    and score: "new_score = lead_score_weighted base deal new_status new_pipeline
                  (truthy (get_or sl ''crm_activity_flag'' (PBool False)))"
    and run: "update_document now pair_draw note_draw base d = Inr (d', changed)"
  shows "history_of d' k =
     (if (k = ''lead_status'' \<or> k = ''pipeline_stage'')
          \<and> (py_ne (PStr new_status) (get sl ''lead_status'')
               \<or> py_ne (PStr new_pipeline) (get sl ''pipeline_stage''))
      then Some \<lparr>old_value = get sl k, audit_date = now\<rparr>
      else if k = ''notes'' \<and> py_ne (PStr new_note) (get sl ''notes'')
      then Some \<lparr>old_value = get sl ''notes'', audit_date = now\<rparr>
      else if k = ''lead_score'' \<and> py_ne (PInt new_score) (get_or sl ''lead_score'' (PInt 0))
      then Some \<lparr>old_value = get_or sl ''lead_score'' (PInt 0), audit_date = now\<rparr>
      else history_of d k)"
    and "changed =
      (py_ne (PStr new_status) (get sl ''lead_status'')
       \<or> py_ne (PStr new_pipeline) (get sl ''pipeline_stage'')
       \<or> py_ne (PStr new_note) (get sl ''notes'')
       \<or> py_ne (PInt new_score) (get_or sl ''lead_score'' (PInt 0)))"
proof -
  from lead pair nt run obtain h1 sl1 ch1 h2 sl2 ch2 h3 sl3 sl4 where
    s1: "refresh_status_and_pipeline now new_status new_pipeline (history_of d, sl, False)
           = (h1, sl1, ch1)"
    and s2: "refresh_notes now new_note (h1, sl1, ch1) = (h2, sl2, ch2)"
    and s3: "refresh_score now base new_status new_pipeline (h2, sl2, ch2)
               = Inr (h3, sl3, changed)"
    and s4: "refresh_flag sl3 = Inr sl4"
    and res: "d' = (if changed then d\<lparr>sales_lead := Some sl4, old_data := Some h3\<rparr>
                    else d\<lparr>sales_lead := Some sl4\<rparr>)"
    by (rule update_document_stages)
  note r1 = refresh_status_and_pipeline_result [OF s1]
  note r2 = refresh_notes_result [OF s2]
  have same2: "get sl1 ''notes'' = get sl ''notes''"
    by (simp add: get_def r1(2))
  have same3: "get_or sl2 key dflt = get_or sl key dflt"
    if "key = ''last_deal_size_usd'' \<or> key = ''crm_activity_flag'' \<or> key = ''lead_score''"
    for key dflt
    using that by (auto simp: get_or_def r1(2) r2(2))
  have deal2: "as_number (get_or sl2 ''last_deal_size_usd'' (PInt 0)) = Inr deal"
    by (simp add: same3 deal)
  have score2: "new_score = lead_score_weighted base deal new_status new_pipeline
                  (truthy (get_or sl2 ''crm_activity_flag'' (PBool False)))"
    by (simp add: same3 score)
  note r3 = refresh_score_result [OF s3 deal2 score2]
  have cur: "get_or sl2 ''lead_score'' (PInt 0) = get_or sl ''lead_score'' (PInt 0)"
    by (simp add: same3)
  show ch: "changed =
      (py_ne (PStr new_status) (get sl ''lead_status'')
       \<or> py_ne (PStr new_pipeline) (get sl ''pipeline_stage'')
       \<or> py_ne (PStr new_note) (get sl ''notes'')
       \<or> py_ne (PInt new_score) (get_or sl ''lead_score'' (PInt 0)))"
    by (simp add: r3(3) r2(4) r1(3) same2 cur)
  have h3: "h3 k =
     (if (k = ''lead_status'' \<or> k = ''pipeline_stage'')
          \<and> (py_ne (PStr new_status) (get sl ''lead_status'')
               \<or> py_ne (PStr new_pipeline) (get sl ''pipeline_stage''))
      then Some \<lparr>old_value = get sl k, audit_date = now\<rparr>
      else if k = ''notes'' \<and> py_ne (PStr new_note) (get sl ''notes'')
      then Some \<lparr>old_value = get sl ''notes'', audit_date = now\<rparr>
      else if k = ''lead_score'' \<and> py_ne (PInt new_score) (get_or sl ''lead_score'' (PInt 0))
      then Some \<lparr>old_value = get_or sl ''lead_score'' (PInt 0), audit_date = now\<rparr>
      else history_of d k)"
    by (simp add: r3(1) r2(1) r1(1) same2 cur)
  show "history_of d' k =
     (if (k = ''lead_status'' \<or> k = ''pipeline_stage'')
          \<and> (py_ne (PStr new_status) (get sl ''lead_status'')
               \<or> py_ne (PStr new_pipeline) (get sl ''pipeline_stage''))
      then Some \<lparr>old_value = get sl k, audit_date = now\<rparr>
      else if k = ''notes'' \<and> py_ne (PStr new_note) (get sl ''notes'')
      then Some \<lparr>old_value = get sl ''notes'', audit_date = now\<rparr>
      else if k = ''lead_score'' \<and> py_ne (PInt new_score) (get_or sl ''lead_score'' (PInt 0))
      then Some \<lparr>old_value = get_or sl ''lead_score'' (PInt 0), audit_date = now\<rparr>
      else history_of d k)"
  proof (cases changed)
    case True
    then have "history_of d' = h3" by (simp add: res history_of_def)
    then show ?thesis by (simp only: h3)
  next
    case False
    then have "history_of d' = history_of d" by (simp add: res history_of_def)
    moreover from False ch have "h3 k = history_of d k"
      unfolding h3 by simp
    ultimately show ?thesis by (simp only: h3 [symmetric])
  qed
qed

lemma refresh_score_keeps:
  "refresh_score now base new_status new_pipeline (h, sl, ch) = Inr (h', sl', ch') \<Longrightarrow>
   k \<noteq> ''lead_score'' \<Longrightarrow> sl' k = sl k"
  by (auto simp: refresh_score_def Let_def split: if_splits sum.splits)

lemma update_document_draws:
  assumes lead: "sales_lead d = Some sl"
    and run: "update_document now pair_draw note_draw base d = Inr (d', changed)"
  obtains new_status new_pipeline new_note where
    "random_lead_status_and_pipeline_stage pair_draw = Inr (new_status, new_pipeline)"
    "random_notes note_draw = Inr new_note"
proof -
  obtain new_status new_pipeline where
    pair: "random_lead_status_and_pipeline_stage pair_draw = Inr (new_status, new_pipeline)"
    using run by (cases "random_lead_status_and_pipeline_stage pair_draw")
      (auto simp: update_document_def lead)
  obtain new_note where nt: "random_notes note_draw = Inr new_note"
    using run by (cases "random_notes note_draw")
      (auto simp: update_document_def lead pair Let_def)
  from pair nt show thesis by (rule that)
qed

lemma update_document_lead:
  assumes lead: "sales_lead d = Some sl"
    and pair: "random_lead_status_and_pipeline_stage pair_draw = Inr (new_status, new_pipeline)"
    and nt: "random_notes note_draw = Inr new_note"
    and run: "update_document now pair_draw note_draw base d = Inr (d', changed)"
  obtains sl' where
    "sales_lead d' = Some sl'"
    "get sl' ''notes'' = PStr new_note"
    "sl' ''high_priority_flag'' = Some (PBool (score_high (sl' ''lead_score'')))"
proof -
  from lead pair nt run obtain h1 sl1 ch1 h2 sl2 ch2 h3 sl3 sl4 where
    s1: "refresh_status_and_pipeline now new_status new_pipeline (history_of d, sl, False)
           = (h1, sl1, ch1)"
    and s2: "refresh_notes now new_note (h1, sl1, ch1) = (h2, sl2, ch2)"
    and s3: "refresh_score now base new_status new_pipeline (h2, sl2, ch2)
               = Inr (h3, sl3, changed)"
    and s4: "refresh_flag sl3 = Inr sl4"
    and res: "d' = (if changed then d\<lparr>sales_lead := Some sl4, old_data := Some h3\<rparr>
                    else d\<lparr>sales_lead := Some sl4\<rparr>)"
    by (rule update_document_stages)
  have "sl4 ''notes'' = sl3 ''notes''"
    using refresh_flag_result(2) [OF s4, of "''notes''"] by simp
  also have "\<dots> = sl2 ''notes''"
    using refresh_score_keeps [OF s3, of "''notes''"] by simp
  finally have "get sl4 ''notes'' = get sl2 ''notes''"
    by (simp add: get_def)
  then have written: "get sl4 ''notes'' = PStr new_note"
    by (simp add: refresh_notes_result(3) [OF s2])
  have "sales_lead d' = Some sl4" by (simp add: res)
  then show thesis
    using written refresh_flag_result(1) [OF s4] by (rule that)
qed

lemma updated_sales_lead_flag:
  "updated_sales_lead f s m ''high_priority_flag''
     = Some (PBool (score_high (updated_sales_lead f s m ''lead_score'')))"
  by (simp add: updated_sales_lead_def score_high_def)

text \<open>
  Claim C5. Every document the edit form upserts, and every document \<^verbatim>\<open>update_document\<close>
  returns for a document with a lead, stores a high-priority flag that is true exactly when
  the stored score is a number of at least 80: both paths derive the flag from the final
  score.
\<close>

theorem high_priority_flag_recomputed:
  "(edit_lead_submit now base f d = Inr (Upserted e') \<longrightarrow> flag_consistent e')
   \<and> (sales_lead d \<noteq> None \<and> update_document now pair_draw note_draw base d = Inr (u', changed)
        \<longrightarrow> flag_consistent u')"
proof (intro conjI impI)
  assume run: "edit_lead_submit now base f d = Inr (Upserted e')"
  then obtain m where "sales_lead e' = Some (updated_sales_lead f
      (lead_score_weighted base (new_last_deal_size f) (new_lead_status f)
         (new_pipeline_stage f) (new_crm_activity f)) m)"
    by (auto simp: edit_lead_submit_cases split: if_splits option.splits)
  then show "flag_consistent e'"
    by (simp add: flag_consistent_def updated_sales_lead_flag)
next
  assume "sales_lead d \<noteq> None
          \<and> update_document now pair_draw note_draw base d = Inr (u', changed)"
  then obtain sl where lead: "sales_lead d = Some sl"
    and run: "update_document now pair_draw note_draw base d = Inr (u', changed)"
    by auto
  from lead run obtain new_status new_pipeline new_note where
    pair: "random_lead_status_and_pipeline_stage pair_draw = Inr (new_status, new_pipeline)"
    and nt: "random_notes note_draw = Inr new_note"
    by (rule update_document_draws)
  from lead pair nt run obtain sl' where
    "sales_lead u' = Some sl'"
    "sl' ''high_priority_flag'' = Some (PBool (score_high (sl' ''lead_score'')))"
    by (rule update_document_lead)
  then show "flag_consistent u'"
    by (simp add: flag_consistent_def)
qed

subsection \<open>The example documents\<close>

lemma lead_with_notes_values:
  "lead_with_notes n ''lead_status'' = Some (PStr PROSPECT)"
  "lead_with_notes n ''pipeline_stage'' = Some (PStr DISCOVERY)"
  "lead_with_notes n ''notes'' = Some (PStr n)"
  "lead_with_notes n ''lead_score'' = Some (PInt 36)"
  "lead_with_notes n ''last_deal_size_usd'' = Some (PInt 1000000)"
  "lead_with_notes n ''crm_activity_flag'' = Some (PBool False)"
  "lead_with_notes n ''high_priority_flag'' = Some (PBool False)"
  by (simp_all add: lead_with_notes_def updated_sales_lead_def form_with_notes_def form_A_def)

lemma updated_sales_lead_overwrites:
  "updated_sales_lead f s (updated_sales_lead f' s' m) = updated_sales_lead f s m"
  by (rule ext) (simp add: updated_sales_lead_def)

lemma example_scores:
  "lead_score_weighted 20 1000000 PROSPECT DISCOVERY False = 36"
  "lead_score_weighted 20 1000000 QUALIFIED DISCOVERY False = 41"
  by (simp_all add: lead_score_weighted_def deal_score_def dict_get_def STATUS_SCORES_def
      PIPELINE_SCORES_def py_int_def floor_rat_numeral_div)

lemma example_draws:
  "random_lead_status_and_pipeline_stage 0 = Inr (PROSPECT, DISCOVERY)"
  "random_lead_status_and_pipeline_stage 4 = Inr (QUALIFIED, DISCOVERY)"
  "random_notes 0 = Inr note0"
  "random_notes 1 = Inr note1"
  "random_notes 2 = Inr note2"
  by (simp_all add: random_lead_status_and_pipeline_stage_def random_choice_def
      LEAD_STATUSES_def STATUS_PIPELINE_MAPPING_def random_notes_def notes_samples_def)

lemma example_fields:
  "proposed_fields 20 (form_with_notes n') (doc_with_notes n h) =
     fields_to_check (form_with_notes n') 36 (lead_with_notes n)"
  by (simp add: proposed_fields_def form_with_notes_def form_A_def example_scores
      doc_with_notes_def lead_of_def)

lemma example_all_equal:
  "all_equal (fields_to_check (form_with_notes n') 36 (lead_with_notes n)) = (n' = n)"
  by (simp add: fields_to_check_def get_def lead_with_notes_def updated_sales_lead_def
      form_with_notes_def form_A_def)

lemma example_audit:
  "n' \<noteq> n \<Longrightarrow>
   fst (audit_loop now (fields_to_check (form_with_notes n') 36 (lead_with_notes n)) (h, False))
     = h(''notes'' \<mapsto> \<lparr>old_value = PStr n, audit_date = now\<rparr>)"
  by (simp add: fields_to_check_def get_def lead_with_notes_def updated_sales_lead_def
      form_with_notes_def form_A_def py_ne_def)

lemma example_edit:
  "n' \<noteq> n \<Longrightarrow>
   edit_lead_submit now 20 (form_with_notes n') (doc_with_notes n h) =
     Inr (Upserted (doc_with_notes n'
       (Some ((history_of (doc_with_notes n h))
          (''notes'' \<mapsto> \<lparr>old_value = PStr n, audit_date = now\<rparr>)))))"
proof -
  assume ne: "n' \<noteq> n"
  have score: "lead_score_weighted 20 (new_last_deal_size (form_with_notes n'))
      (new_lead_status (form_with_notes n')) (new_pipeline_stage (form_with_notes n'))
      (new_crm_activity (form_with_notes n')) = 36"
    by (simp add: form_with_notes_def form_A_def example_scores)
  have lead: "updated_sales_lead (form_with_notes n') 36 (lead_with_notes n)
              = lead_with_notes n'"
    by (simp add: lead_with_notes_def updated_sales_lead_overwrites)
  show ?thesis
    unfolding edit_lead_submit_cases example_fields score
    using ne
    by (simp add: example_all_equal example_audit doc_with_notes_def lead)
qed

lemma example_refresh:
  "update_document time1 4 0 20 (doc_with_notes note0 None) = Inr (doc_refreshed, True)"
  by (simp add: update_document_def doc_with_notes_def example_draws
      refresh_status_and_pipeline_def refresh_notes_def refresh_score_def refresh_flag_def
      get_def get_or_def lead_with_notes_values py_ne_def example_scores history_of_def
      doc_refreshed_def)

theorem high_priority_flag_recomputed_witness:
  "edit_lead_submit time1 20 (form_with_notes ''B'') (doc_with_notes ''A'' None)
     = Inr (Upserted (doc_with_notes ''B''
         (Some [''notes'' \<mapsto> \<lparr>old_value = PStr ''A'', audit_date = time1\<rparr>])))
   \<and> flag_consistent (doc_with_notes ''B''
         (Some [''notes'' \<mapsto> \<lparr>old_value = PStr ''A'', audit_date = time1\<rparr>]))
   \<and> sales_lead (doc_with_notes note0 None) \<noteq> None
   \<and> update_document time1 4 0 20 (doc_with_notes note0 None) = Inr (doc_refreshed, True)
   \<and> flag_consistent doc_refreshed"
proof -
  have edit: "edit_lead_submit time1 20 (form_with_notes ''B'') (doc_with_notes ''A'' None)
     = Inr (Upserted (doc_with_notes ''B''
         (Some [''notes'' \<mapsto> \<lparr>old_value = PStr ''A'', audit_date = time1\<rparr>])))"
    using example_edit [of "''B''" "''A''" time1 None]
    by (simp add: history_of_def doc_with_notes_def)
  have lead: "sales_lead (doc_with_notes note0 None) \<noteq> None"
    by (simp add: doc_with_notes_def)
  note gen1 = high_priority_flag_recomputed
    [where now = time1 and base = 20 and f = "form_with_notes ''B''"
       and d = "doc_with_notes ''A'' None"
       and e' = "doc_with_notes ''B''
         (Some [''notes'' \<mapsto> \<lparr>old_value = PStr ''A'', audit_date = time1\<rparr>])"]
  note gen2 = high_priority_flag_recomputed
    [where now = time1 and base = 20 and d = "doc_with_notes note0 None"
       and pair_draw = 4 and note_draw = 0 and u' = doc_refreshed and changed = True]
  from gen1 edit have "flag_consistent (doc_with_notes ''B''
         (Some [''notes'' \<mapsto> \<lparr>old_value = PStr ''A'', audit_date = time1\<rparr>]))"
    by blast
  moreover from gen2 lead example_refresh have "flag_consistent doc_refreshed"
    by blast
  ultimately show ?thesis
    using edit lead example_refresh by blast
qed

lemma proposed_fields_distinct: "distinct (map fst (proposed_fields base f d))"
  by (simp add: proposed_fields_def fields_to_check_distinct)

lemma proposed_fields_current:
  "map_of (proposed_fields base f d) k = Some (new, old) \<Longrightarrow> old = get (lead_of d) k"
proof -
  assume "map_of (proposed_fields base f d) k = Some (new, old)"
  then have "map_of (fields_to_check f
      (lead_score_weighted base (new_last_deal_size f) (new_lead_status f)
         (new_pipeline_stage f) (new_crm_activity f)) (lead_of d)) k = Some (new, old)"
    by (simp add: proposed_fields_def)
  from fields_to_check_values [OF this, of Map.empty] show ?thesis by simp
qed

lemma edit_lead_submit_history:
  assumes run: "edit_lead_submit now base f d = Inr r"
  shows "history_of (stored_after d r) k =
     (if differs (proposed_fields base f d) k
      then Some \<lparr>old_value = get (lead_of d) k, audit_date = now\<rparr>
      else history_of d k)"
proof (cases "all_equal (proposed_fields base f d)")
  case True
  then have "r = No_changes_detected"
    using run by (simp add: edit_lead_submit_cases)
  moreover from True have "\<not> differs (proposed_fields base f d) k"
    by (simp add: all_equal_differs [OF proposed_fields_distinct])
  ultimately show ?thesis by simp
next
  case False
  let ?h = "fst (audit_loop now (proposed_fields base f d) (history_of d, False))"
  from False run obtain m where "sales_lead d = Some m"
    by (cases "sales_lead d") (simp_all add: edit_lead_submit_cases)
  with False run have "old_data (stored_after d r) = Some ?h"
    by (auto simp: edit_lead_submit_cases)
  then have hist: "history_of (stored_after d r) = ?h"
    by (simp add: history_of_def)
  have old: "snd (the (map_of (proposed_fields base f d) k)) = get (lead_of d) k"
    if "differs (proposed_fields base f d) k"
  proof -
    from that obtain new old where "map_of (proposed_fields base f d) k = Some (new, old)"
      by (auto simp: differs_def split: option.splits)
    then show ?thesis
      using proposed_fields_current by fastforce
  qed
  show ?thesis
    unfolding hist audit_loop_history [OF proposed_fields_distinct]
    using old by simp
qed


lemma example_refresh_inputs:
  "sales_lead (doc_with_notes n h) = Some (lead_with_notes n)"
  "as_number (get_or (lead_with_notes n) ''last_deal_size_usd'' (PInt 0)) = Inr 1000000"
  "truthy (get_or (lead_with_notes n) ''crm_activity_flag'' (PBool False)) = False"
  "get (lead_with_notes n) ''lead_status'' = PStr PROSPECT"
  "get (lead_with_notes n) ''pipeline_stage'' = PStr DISCOVERY"
  "get (lead_with_notes n) ''notes'' = PStr n"
  "get_or (lead_with_notes n) ''lead_score'' (PInt 0) = PInt 36"
  "history_of (doc_with_notes n None) k = None"
  by (simp_all add: doc_with_notes_def get_def get_or_def lead_with_notes_values
      history_of_def)







subsection \<open>Two successive edits\<close>

lemma edit_lead_submit_lead:
  assumes changes: "differs (proposed_fields base f d) k"
    and run: "edit_lead_submit now base f d = Inr r"
  shows "get (lead_of (stored_after d r)) k = proposed (proposed_fields base f d) k"
proof -
  let ?s = "lead_score_weighted base (new_last_deal_size f) (new_lead_status f)
              (new_pipeline_stage f) (new_crm_activity f)"
  from changes have ne: "\<not> all_equal (proposed_fields base f d)"
    by (auto simp: all_equal_differs [OF proposed_fields_distinct])
  from changes obtain new old where
    field: "map_of (proposed_fields base f d) k = Some (new, old)"
    by (auto simp: differs_def split: option.splits)
  from ne run obtain m where m: "sales_lead d = Some m"
    by (cases "sales_lead d") (simp_all add: edit_lead_submit_cases)
  with ne run have "sales_lead (stored_after d r) = Some (updated_sales_lead f ?s m)"
    by (auto simp: edit_lead_submit_cases)
  then have "lead_of (stored_after d r) k = updated_sales_lead f ?s m k"
    by (simp add: lead_of_def)
  also have "\<dots> = Some new"
    using field fields_to_check_values [of f ?s "lead_of d" k new old m]
    by (simp add: proposed_fields_def)
  finally show ?thesis
    by (simp add: get_def proposed_def field)
qed

lemma refresh_score_deal:
  "refresh_score now base new_status new_pipeline (h, sl, ch) = Inr r \<Longrightarrow>
   \<exists>deal. as_number (get_or sl ''last_deal_size_usd'' (PInt 0)) = Inr deal"
  by (auto simp: refresh_score_def Let_def split: sum.splits)

lemma update_document_deal:
  assumes lead: "sales_lead d = Some sl"
    and run: "update_document now pair_draw note_draw base d = Inr (d', changed)"
  obtains deal where "as_number (get_or sl ''last_deal_size_usd'' (PInt 0)) = Inr deal"
proof -
  from lead run obtain new_status new_pipeline new_note where
    pair: "random_lead_status_and_pipeline_stage pair_draw = Inr (new_status, new_pipeline)"
    and nt: "random_notes note_draw = Inr new_note"
    by (rule update_document_draws)
  from lead pair nt run obtain h1 sl1 ch1 h2 sl2 ch2 h3 sl3 where
    s1: "refresh_status_and_pipeline now new_status new_pipeline (history_of d, sl, False)
           = (h1, sl1, ch1)"
    and s2: "refresh_notes now new_note (h1, sl1, ch1) = (h2, sl2, ch2)"
    and s3: "refresh_score now base new_status new_pipeline (h2, sl2, ch2)
               = Inr (h3, sl3, changed)"
    by (rule update_document_stages)
  have "sl2 ''last_deal_size_usd'' = sl ''last_deal_size_usd''"
    by (simp add: refresh_notes_result(2) [OF s2] refresh_status_and_pipeline_result(2) [OF s1])
  then have "get_or sl2 ''last_deal_size_usd'' (PInt 0) = get_or sl ''last_deal_size_usd'' (PInt 0)"
    by (simp add: get_or_def)
  with refresh_score_deal [OF s3] show thesis
    using that by auto
qed

lemma update_document_notes_twice:
  assumes lead: "sales_lead u0 = Some sl0"
    and nt1: "random_notes n1 = Inr noteA"
    and nt2: "random_notes n2 = Inr noteB"
    and ch2: "py_ne (PStr noteB) (PStr noteA)"
    and run1: "update_document t1 p1 n1 b1 u0 = Inr (u1, c1)"
    and run2: "update_document t2 p2 n2 b2 u1 = Inr (u2, c2)"
  shows "history_of u2 ''notes'' = Some \<lparr>old_value = PStr noteA, audit_date = t2\<rparr>"
proof -
  from lead run1 obtain s1 g1 m1 where
    "random_lead_status_and_pipeline_stage p1 = Inr (s1, g1)" "random_notes n1 = Inr m1"
    by (rule update_document_draws)
  with nt1 have pair1: "random_lead_status_and_pipeline_stage p1 = Inr (s1, g1)"
    by simp
  from lead pair1 nt1 run1 obtain sl1 where
    lead1: "sales_lead u1 = Some sl1" and cur: "get sl1 ''notes'' = PStr noteA"
    by (rule update_document_lead)
  from lead1 run2 obtain s2 g2 m2 where
    pair2: "random_lead_status_and_pipeline_stage p2 = Inr (s2, g2)"
    and "random_notes n2 = Inr m2"
    by (rule update_document_draws)
  from lead1 run2 obtain deal where
    deal: "as_number (get_or sl1 ''last_deal_size_usd'' (PInt 0)) = Inr deal"
    by (rule update_document_deal)
  from update_document_history(1) [OF lead1 pair2 nt2 deal refl run2, of "''notes''"] ch2
  show ?thesis
    by (simp add: cur)
qed

text \<open>
  Claim C7. When two successive edits both change a field, the history entry of that field
  after the second edit holds the value the first edit gave the field (the value right before
  the second edit, not the original one) and the second edit's audit date. This holds for
  every tracked field of the edit form and for the notes that \<^verbatim>\<open>update_document\<close> draws.
  The history map has one entry per field name, so the entry of the first edit is gone.
\<close>

theorem history_entry_after_two_edits:
  "(differs (proposed_fields b1 f1 d0) k
      \<and> edit_lead_submit t1 b1 f1 d0 = Inr r1
      \<and> differs (proposed_fields b2 f2 (stored_after d0 r1)) k
      \<and> edit_lead_submit t2 b2 f2 (stored_after d0 r1) = Inr r2
    \<longrightarrow>
      get (lead_of (stored_after d0 r1)) k = proposed (proposed_fields b1 f1 d0) k
      \<and> history_of (stored_after (stored_after d0 r1) r2) k
          = Some \<lparr>old_value = proposed (proposed_fields b1 f1 d0) k, audit_date = t2\<rparr>)
   \<and> (sales_lead u0 = Some sl0
        \<and> random_notes n1 = Inr noteA \<and> py_ne (PStr noteA) (get sl0 ''notes'')
        \<and> update_document t1 p1 n1 b1 u0 = Inr (u1, c1)
        \<and> random_notes n2 = Inr noteB \<and> py_ne (PStr noteB) (PStr noteA)
        \<and> update_document t2 p2 n2 b2 u1 = Inr (u2, c2)
      \<longrightarrow> history_of u2 ''notes'' = Some \<lparr>old_value = PStr noteA, audit_date = t2\<rparr>)"
proof (intro conjI impI)
  assume a: "differs (proposed_fields b1 f1 d0) k
      \<and> edit_lead_submit t1 b1 f1 d0 = Inr r1
      \<and> differs (proposed_fields b2 f2 (stored_after d0 r1)) k
      \<and> edit_lead_submit t2 b2 f2 (stored_after d0 r1) = Inr r2"
  then show before: "get (lead_of (stored_after d0 r1)) k = proposed (proposed_fields b1 f1 d0) k"
    by (intro edit_lead_submit_lead) blast+
  from a have "history_of (stored_after (stored_after d0 r1) r2) k
      = Some \<lparr>old_value = get (lead_of (stored_after d0 r1)) k, audit_date = t2\<rparr>"
    using edit_lead_submit_history [of t2 b2 f2 "stored_after d0 r1" r2 k] by simp
  then show "history_of (stored_after (stored_after d0 r1) r2) k
      = Some \<lparr>old_value = proposed (proposed_fields b1 f1 d0) k, audit_date = t2\<rparr>"
    by (simp only: before)
next
  assume "sales_lead u0 = Some sl0
        \<and> random_notes n1 = Inr noteA \<and> py_ne (PStr noteA) (get sl0 ''notes'')
        \<and> update_document t1 p1 n1 b1 u0 = Inr (u1, c1)
        \<and> random_notes n2 = Inr noteB \<and> py_ne (PStr noteB) (PStr noteA)
        \<and> update_document t2 p2 n2 b2 u1 = Inr (u2, c2)"
  then show "history_of u2 ''notes'' = Some \<lparr>old_value = PStr noteA, audit_date = t2\<rparr>"
    by (intro update_document_notes_twice [of u0 sl0 n1 noteA n2 noteB t1 p1 b1 u1 c1 t2 p2 b2 u2 c2])
      blast+
qed

lemma example_refresh_notes:
  assumes ne: "n' \<noteq> n" and draw: "random_notes i = Inr n'"
  shows "update_document now 0 i 20 (doc_with_notes n h) =
     Inr (doc_with_notes n'
       (Some ((history_of (doc_with_notes n h))
          (''notes'' \<mapsto> \<lparr>old_value = PStr n, audit_date = now\<rparr>))), True)"
proof -
  have lead: "(lead_with_notes n)(''notes'' \<mapsto> PStr n', ''high_priority_flag'' \<mapsto> PBool False)
              = lead_with_notes n'"
    by (rule ext)
      (simp add: lead_with_notes_def updated_sales_lead_def form_with_notes_def form_A_def)
  show ?thesis
    using ne
    by (simp add: update_document_def example_refresh_inputs example_draws draw
        refresh_status_and_pipeline_def refresh_notes_def refresh_score_def refresh_flag_def
        py_ne_def example_scores get_or_def lead_with_notes_values lead)
      (simp add: doc_with_notes_def)
qed

theorem history_entry_after_two_edits_witness:
  "differs (proposed_fields 20 (form_with_notes ''B'') (doc_with_notes ''A'' None)) ''notes''
   \<and> edit_lead_submit time1 20 (form_with_notes ''B'') (doc_with_notes ''A'' None)
       = Inr (Upserted (doc_with_notes ''B''
           (Some [''notes'' \<mapsto> \<lparr>old_value = PStr ''A'', audit_date = time1\<rparr>])))
   \<and> differs (proposed_fields 20 (form_with_notes ''C'') (doc_with_notes ''B''
           (Some [''notes'' \<mapsto> \<lparr>old_value = PStr ''A'', audit_date = time1\<rparr>]))) ''notes''
   \<and> edit_lead_submit time2 20 (form_with_notes ''C'') (doc_with_notes ''B''
           (Some [''notes'' \<mapsto> \<lparr>old_value = PStr ''A'', audit_date = time1\<rparr>]))
       = Inr (Upserted (doc_with_notes ''C''
           (Some [''notes'' \<mapsto> \<lparr>old_value = PStr ''B'', audit_date = time2\<rparr>])))
   \<and> history_of (doc_with_notes ''C''
           (Some [''notes'' \<mapsto> \<lparr>old_value = PStr ''B'', audit_date = time2\<rparr>])) ''notes''
       = Some \<lparr>old_value = PStr ''B'', audit_date = time2\<rparr>
   \<and> update_document time1 0 1 20 (doc_with_notes note0 None)
       = Inr (doc_with_notes note1
           (Some [''notes'' \<mapsto> \<lparr>old_value = PStr note0, audit_date = time1\<rparr>]), True)
   \<and> update_document time2 0 2 20 (doc_with_notes note1
           (Some [''notes'' \<mapsto> \<lparr>old_value = PStr note0, audit_date = time1\<rparr>]))
       = Inr (doc_with_notes note2
           (Some [''notes'' \<mapsto> \<lparr>old_value = PStr note1, audit_date = time2\<rparr>]), True)
   \<and> history_of (doc_with_notes note2
           (Some [''notes'' \<mapsto> \<lparr>old_value = PStr note1, audit_date = time2\<rparr>])) ''notes''
       = Some \<lparr>old_value = PStr note1, audit_date = time2\<rparr>"
proof -
  let ?hA = "[''notes'' \<mapsto> \<lparr>old_value = PStr ''A'', audit_date = time1\<rparr>]"
  let ?hB = "[''notes'' \<mapsto> \<lparr>old_value = PStr ''B'', audit_date = time2\<rparr>]"
  let ?h0 = "[''notes'' \<mapsto> \<lparr>old_value = PStr note0, audit_date = time1\<rparr>]"
  let ?h1 = "[''notes'' \<mapsto> \<lparr>old_value = PStr note1, audit_date = time2\<rparr>]"
  have hist: "history_of (doc_with_notes n (Some h)) = h" for n h
    by (simp add: history_of_def doc_with_notes_def)
  have hist0: "history_of (doc_with_notes n None) = Map.empty" for n
    by (simp add: history_of_def doc_with_notes_def)
  have diff: "differs (proposed_fields 20 (form_with_notes n') (doc_with_notes n h)) ''notes''"
    if "n' \<noteq> n" for n n' h
    unfolding example_fields using that
    by (simp add: differs_def fields_to_check_def py_ne_def example_refresh_inputs
        form_with_notes_def)
  have pv: "proposed (proposed_fields 20 (form_with_notes n') (doc_with_notes n h)) ''notes''
              = PStr n'" for n n' h
    unfolding example_fields
    by (simp add: proposed_def fields_to_check_def form_with_notes_def)
  have d1: "differs (proposed_fields 20 (form_with_notes ''B'') (doc_with_notes ''A'' None))
      ''notes''"
    by (rule diff) simp
  have e1: "edit_lead_submit time1 20 (form_with_notes ''B'') (doc_with_notes ''A'' None)
       = Inr (Upserted (doc_with_notes ''B'' (Some ?hA)))"
    using example_edit [of "''B''" "''A''" time1 None] by (simp add: hist0)
  have d2: "differs (proposed_fields 20 (form_with_notes ''C'') (doc_with_notes ''B'' (Some ?hA)))
      ''notes''"
    by (rule diff) simp
  have e2: "edit_lead_submit time2 20 (form_with_notes ''C'') (doc_with_notes ''B'' (Some ?hA))
       = Inr (Upserted (doc_with_notes ''C'' (Some ?hB)))"
    using example_edit [of "''C''" "''B''" time2 "Some ?hA"] by (simp add: hist)
  note gen1 = history_entry_after_two_edits
    [where ?b1.0 = 20 and ?f1.0 = "form_with_notes ''B''" and ?d0.0 = "doc_with_notes ''A'' None"
       and k = "''notes''" and ?t1.0 = time1 and ?r1.0 = "Upserted (doc_with_notes ''B'' (Some ?hA))"
       and ?b2.0 = 20 and ?f2.0 = "form_with_notes ''C''" and ?t2.0 = time2
       and ?r2.0 = "Upserted (doc_with_notes ''C'' (Some ?hB))",
     THEN conjunct1]
  have h2: "history_of (doc_with_notes ''C'' (Some ?hB)) ''notes''
       = Some \<lparr>old_value = PStr ''B'', audit_date = time2\<rparr>"
    using gen1 d1 e1 d2 e2 by (simp add: pv)
  have u1: "update_document time1 0 1 20 (doc_with_notes note0 None)
       = Inr (doc_with_notes note1 (Some ?h0), True)"
    using example_refresh_notes
      [OF _ example_draws(4), where n = note0 and now = time1 and h = None]
    by (simp add: hist0)
  have u2: "update_document time2 0 2 20 (doc_with_notes note1 (Some ?h0))
       = Inr (doc_with_notes note2 (Some ?h1), True)"
    using example_refresh_notes
      [OF _ example_draws(5), where n = note1 and now = time2 and h = "Some ?h0"]
    by (simp add: hist)
  note gen2 = history_entry_after_two_edits
    [where ?u0.0 = "doc_with_notes note0 None" and ?sl0.0 = "lead_with_notes note0"
       and ?n1.0 = 1 and noteA = note1 and ?t1.0 = time1 and ?p1.0 = 0 and ?b1.0 = 20
       and ?u1.0 = "doc_with_notes note1 (Some ?h0)" and ?c1.0 = True
       and ?n2.0 = 2 and noteB = note2 and ?t2.0 = time2 and ?p2.0 = 0 and ?b2.0 = 20
       and ?u2.0 = "doc_with_notes note2 (Some ?h1)" and ?c2.0 = True,
     THEN conjunct2]
  have h3: "history_of (doc_with_notes note2 (Some ?h1)) ''notes''
       = Some \<lparr>old_value = PStr note1, audit_date = time2\<rparr>"
  proof -
    have l0: "sales_lead (doc_with_notes note0 None) = Some (lead_with_notes note0)"
      by (rule example_refresh_inputs(1))
    have c1: "py_ne (PStr note1) (get (lead_with_notes note0) ''notes'')"
      by (simp add: example_refresh_inputs py_ne_def)
    have c2: "py_ne (PStr note2) (PStr note1)"
      by (simp add: py_ne_def)
    from gen2 l0 example_draws(4) c1 u1 example_draws(5) c2 u2 show ?thesis
      by blast
  qed
  from d1 e1 d2 e2 h2 u1 u2 h3 show ?thesis by blast
qed

end
